theory Spec2Isabelle
  imports Main "HOL-Library.Word"
begin

section \<open>JavaScript strings\<close>

text \<open>
  A JavaScript string is a sequence of UTF-16 code units.  Literals of the source are
  written through \<open>js\<close>, which maps an ASCII literal to its code units.
\<close>

type_synonym jsstring = "16 word list"

definition js :: "string \<Rightarrow> jsstring" where
  "js s = map of_char s"

section \<open>The deploy-completion waiter (\<open>common/client.mjs\<close>)\<close>

subsection \<open>Data\<close>

text \<open>
  One element of the \<open>apps\<close> array of a \<open>getDeployStatus\<close> response.  The field
  \<open>status\<close> of the element is \<open>None\<close> when the element has no string under that
  name (the source reads it as \<open>undefined\<close>, which is \<open>===\<close> to no string literal).
\<close>

datatype 'a deploy_entry = DeployEntry (app: 'a) (entry_status: "jsstring option")

text \<open>
  What one call \<open>await client.app.getDeployStatus({ apps })\<close> gives back:
  \<open>Inl err\<close> when the promise rejects with \<open>err\<close>, \<open>Inr (Some apps)\<close> when it
  resolves to \<open>{ apps }\<close>, and \<open>Inr None\<close> when it resolves to a value that gives no
  \<open>apps\<close> to index (the value or its \<open>apps\<close> is \<open>undefined\<close> or \<open>null\<close>).  The client
  is the remote side's script: its answer to the \<open>n\<close>-th status query of a run (counted
  from \<open>0\<close>), as a function of the submitted batch.
\<close>

type_synonym ('e, 'a) reply = "'e + 'a deploy_entry list option"

text \<open>
  What the waiter can throw: the error a status query rejected with, or the \<open>TypeError\<close>
  of the language when \<open>apps[0]\<close> (or the destructuring before it) has nothing to read.
\<close>

datatype 'e thrown = Rejected 'e | TypeError

type_synonym ('e, 'a) client = "nat \<Rightarrow> 'a list \<Rightarrow> ('e, 'a) reply"

text \<open>The observable effects of the waiter, in the order in which they happen.\<close>

datatype 'a event = GetDeployStatus "'a list" | SetTimeout int

type_synonym 'a world = "'a event list"

record wait_outcome =
  success :: bool
  status :: jsstring

subsection \<open>Effects\<close>

fun is_query :: "'a event \<Rightarrow> bool" where
  "is_query (GetDeployStatus _) = True"
| "is_query (SetTimeout _) = False"

definition queries :: "'a world \<Rightarrow> nat" where
  "queries w = length (filter is_query w)"

definition suspensions :: "'a world \<Rightarrow> nat" where
  "suspensions w = length (filter (\<lambda>ev. \<not> is_query ev) w)"

text \<open>\<open>await client.app.getDeployStatus({ apps: batch })\<close>\<close>

definition getDeployStatus ::
  "('e, 'a) client \<Rightarrow> 'a list \<Rightarrow> 'a world \<Rightarrow> ('e, 'a) reply \<times> 'a world" where
  "getDeployStatus client batch w = (client (queries w) batch, w @ [GetDeployStatus batch])"

text \<open>\<open>await new Promise((resolve) => setTimeout(resolve, ms))\<close>\<close>

definition sleep :: "int \<Rightarrow> 'a world \<Rightarrow> 'a world" where
  "sleep ms w = w @ [SetTimeout ms]"

text \<open>\<open>apps[0]?.status\<close>: \<open>undefined\<close> on an empty array.\<close>

fun first_status :: "'a deploy_entry list \<Rightarrow> jsstring option" where
  "first_status [] = None"
| "first_status (e # _) = entry_status e"

subsection \<open>\<open>waitForDeploy\<close>\<close>

text \<open>
  The body of the \<open>for\<close> loop, entered with the loop variable \<open>i\<close>.  The numbers
  \<open>maxAttempts\<close> and \<open>intervalMs\<close> are taken as integers.
\<close>

function waitForDeploy_loop ::
  "('e, 'a) client \<Rightarrow> 'a \<Rightarrow> int \<Rightarrow> int \<Rightarrow> nat \<Rightarrow> 'a world
     \<Rightarrow> ('e thrown + wait_outcome) \<times> 'a world" where
  "waitForDeploy_loop client appId maxAttempts intervalMs i w =
     (if int i < maxAttempts then
        (case getDeployStatus client [appId] w of
           (Inl err, w1) \<Rightarrow> (Inl (Rejected err), w1)
         | (Inr None, w1) \<Rightarrow> (Inl TypeError, w1)
         | (Inr (Some apps), w1) \<Rightarrow>
             (let st = first_status apps in
              if st = Some (js ''SUCCESS'') then
                (Inr \<lparr>success = True, status = the st\<rparr>, w1)
              else if st = Some (js ''FAIL'') \<or> st = Some (js ''CANCEL'') then
                (Inr \<lparr>success = False, status = the st\<rparr>, w1)
              else
                waitForDeploy_loop client appId maxAttempts intervalMs (Suc i)
                  (sleep intervalMs w1)))
      else (Inr \<lparr>success = False, status = js ''TIMEOUT''\<rparr>, w))"
  by pat_completeness auto
termination
  by (relation "measure (\<lambda>(client, appId, maxAttempts, intervalMs, i, w). nat (maxAttempts - int i))")
    auto

declare waitForDeploy_loop.simps [simp del]

text \<open>
  The exported function.  An argument left out (\<open>None\<close>) takes its default:
  \<open>maxAttempts = 30\<close>, \<open>intervalMs = 1000\<close>.
\<close>

definition waitForDeploy ::
  "('e, 'a) client \<Rightarrow> 'a \<Rightarrow> int option \<Rightarrow> int option \<Rightarrow> 'a world
     \<Rightarrow> ('e thrown + wait_outcome) \<times> 'a world" where
  "waitForDeploy client appId maxAttempts intervalMs w =
     waitForDeploy_loop client appId
       (case maxAttempts of None \<Rightarrow> 30 | Some m \<Rightarrow> m)
       (case intervalMs of None \<Rightarrow> 1000 | Some ms \<Rightarrow> ms) 0 w"

subsection \<open>Vocabulary of the specification\<close>

text \<open>
  A status is terminal when it is one of the three values the loop returns on.  A reply is a
  non-terminal report when the call resolved and the status read from it is not terminal
  (\<open>PROCESSING\<close>, any other string, or no status at all).
\<close>

definition terminal :: "jsstring option \<Rightarrow> bool" where
  "terminal st \<longleftrightarrow>
     st = Some (js ''SUCCESS'') \<or> st = Some (js ''FAIL'') \<or> st = Some (js ''CANCEL'')"

definition non_terminal_report :: "('e, 'a) reply \<Rightarrow> bool" where
  "non_terminal_report r =
     (case r of
        Inl _ \<Rightarrow> False
      | Inr None \<Rightarrow> False
      | Inr (Some apps) \<Rightarrow> \<not> terminal (first_status apps))"

text \<open>The call resolved and the status read from it is the string \<open>s\<close>.\<close>

definition reports :: "('e, 'a) reply \<Rightarrow> jsstring \<Rightarrow> bool" where
  "reports r s =
     (case r of
        Inl _ \<Rightarrow> False
      | Inr None \<Rightarrow> False
      | Inr (Some apps) \<Rightarrow> first_status apps = Some s)"

text \<open>What a reply that is not a non-terminal report makes the waiter do.\<close>

definition verdict :: "('e, 'a) reply \<Rightarrow> 'e thrown + wait_outcome" where
  "verdict r =
     (case r of
        Inl err \<Rightarrow> Inl (Rejected err)
      | Inr None \<Rightarrow> Inl TypeError
      | Inr (Some apps) \<Rightarrow>
          Inr \<lparr>success = (first_status apps = Some (js ''SUCCESS'')),
               status = the (first_status apps)\<rparr>)"

text \<open>The first entry of a response, all that \<open>apps[0]\<close> can see.\<close>

definition first_entry :: "('e, 'a) reply \<Rightarrow> 'e + 'a deploy_entry option option" where
  "first_entry r =
     (case r of
        Inl err \<Rightarrow> Inl err
      | Inr None \<Rightarrow> Inr None
      | Inr (Some apps) \<Rightarrow> Inr (Some (case apps of [] \<Rightarrow> None | x # _ \<Rightarrow> Some x)))"

text \<open>A reply with every non-terminal report replaced by a \<open>PROCESSING\<close> report.\<close>

definition as_processing :: "'a \<Rightarrow> ('e, 'a) reply \<Rightarrow> ('e, 'a) reply" where
  "as_processing appId r =
     (if non_terminal_report r then Inr (Some [DeployEntry appId (Some (js ''PROCESSING''))]) else r)"

text \<open>
  How one reply makes the loop body go: on (\<open>None\<close>) or out with a verdict.
\<close>

definition classify :: "('e, 'a) reply \<Rightarrow> ('e thrown + wait_outcome) option" where
  "classify r = (if non_terminal_report r then None else Some (verdict r))"

text \<open>The effects of \<open>k\<close> iterations that each saw a non-terminal report.\<close>

definition polling :: "nat \<Rightarrow> 'a \<Rightarrow> int \<Rightarrow> 'a world" where
  "polling k appId intervalMs =
     concat (replicate k [GetDeployStatus [appId], SetTimeout intervalMs])"

text \<open>
  A client that answers its first calls from a list, whatever the batch, and every later
  call with a fixed reply.
\<close>

definition script :: "('e, 'a) reply list \<Rightarrow> ('e, 'a) reply \<Rightarrow> ('e, 'a) client" where
  "script rs d n batch = (if n < length rs then rs ! n else d)"

subsection \<open>Time\<close>





section \<open>The \<open>.env\<close> loader (\<open>common/env.mjs\<close>)\<close>

text \<open>\<open>String.prototype.trim\<close> removes the code units of WhiteSpace and LineTerminator.\<close>

definition js_whitespace :: "16 word \<Rightarrow> bool" where
  "js_whitespace c \<longleftrightarrow>
     c \<in> {0x0009, 0x000A, 0x000B, 0x000C, 0x000D, 0x0020, 0x00A0, 0x1680,
          0x2028, 0x2029, 0x202F, 0x205F, 0x3000, 0xFEFF} \<or> (0x2000 \<le> c \<and> c \<le> 0x200A)"

definition js_trim :: "jsstring \<Rightarrow> jsstring" where
  "js_trim s = rev (dropWhile js_whitespace (rev (dropWhile js_whitespace s)))"

text \<open>
  \<open>s.split(sep)\<close> and \<open>parts.join(sep)\<close> for a separator of one code unit, as both
  separators of the source are (\<open>"\n"\<close> and \<open>"="\<close>).
\<close>

fun js_split :: "'a \<Rightarrow> 'a list \<Rightarrow> 'a list list" where
  "js_split sep [] = [[]]"
| "js_split sep (c # cs) =
     (if c = sep then [] # js_split sep cs
      else (let ps = js_split sep cs in (c # hd ps) # tl ps))"

fun js_join :: "'a \<Rightarrow> 'a list list \<Rightarrow> 'a list" where
  "js_join sep [] = []"
| "js_join sep [p] = p"
| "js_join sep (p # q # ps) = p @ sep # js_join sep (q # ps)"

fun startsWith :: "'a list \<Rightarrow> 'a list \<Rightarrow> bool" where
  "startsWith s [] = True"
| "startsWith [] (p # ps) = False"
| "startsWith (c # cs) (p # ps) = (c = p \<and> startsWith cs ps)"

text \<open>The own properties of the object \<open>env\<close>, from names to values.\<close>

type_synonym env = "jsstring \<rightharpoonup> jsstring"

text \<open>
  The assignment \<open>env[name] = value\<close> on the plain object \<open>env\<close>, for a string
  \<open>value\<close>: it creates or overwrites the property, except for the name \<open>__proto__\<close>,
  which reaches the accessor inherited from \<open>Object.prototype\<close>; its setter ignores a
  value that is neither an object nor \<open>null\<close> and stores nothing.
\<close>

definition js_set :: "env \<Rightarrow> jsstring \<Rightarrow> jsstring \<Rightarrow> env" where
  "js_set env name v = (if name = js ''__proto__'' then env else env(name \<mapsto> v))"

text \<open>
  The callback given to \<open>forEach\<close>: what one line does to \<open>env\<close>.  A string is falsy
  exactly when it is empty.
\<close>

definition loadEnv_line :: "env \<Rightarrow> jsstring \<Rightarrow> env" where
  "loadEnv_line env line =
     (let trimmedLine = js_trim line in
      if trimmedLine = [] \<or> startsWith trimmedLine (js ''#'') then env
      else (case js_split (of_char CHR ''='') trimmedLine of
              [] \<Rightarrow> env
            | key # valueParts \<Rightarrow>
                if key \<noteq> [] \<and> length valueParts > 0
                then js_set env (js_trim key) (js_trim (js_join (of_char CHR ''='') valueParts))
                else env))"

text \<open>
  \<open>loadEnv\<close> on the outcome of \<open>readFileSync(envPath, "utf-8")\<close>: \<open>None\<close> when the read
  throws, which the \<open>catch\<close> block turns into \<open>process.exit(1)\<close>.
\<close>

datatype 'a process = Exit int | Returns 'a

definition loadEnv :: "jsstring option \<Rightarrow> env process" where
  "loadEnv file =
     (case file of
        None \<Rightarrow> Exit 1
      | Some envContent \<Rightarrow>
          Returns (foldl loadEnv_line Map.empty (js_split (of_char CHR ''\<newline>'') envContent)))"

section \<open>Properties of the polling loop\<close>

lemma queries_append [simp]: "queries (w @ v) = queries w + queries v"
  by (simp add: queries_def)

lemma suspensions_append [simp]: "suspensions (w @ v) = suspensions w + suspensions v"
  by (simp add: suspensions_def)

lemma queries_polling [simp]: "queries (polling k a ms) = k"
  by (induction k) (simp_all add: polling_def queries_def)

lemma suspensions_polling [simp]: "suspensions (polling k a ms) = k"
  by (induction k) (simp_all add: polling_def suspensions_def)

lemma polling_Suc: "polling (Suc k) a ms = [GetDeployStatus [a], SetTimeout ms] @ polling k a ms"
  by (simp add: polling_def)


text \<open>One iteration, by the three ways its body can go, and the exit of the loop.\<close>

lemma loop_continue:
  assumes "int i < m" and "non_terminal_report (c (queries w) [a])"
  shows "waitForDeploy_loop c a m ms i w =
         waitForDeploy_loop c a m ms (Suc i) (w @ [GetDeployStatus [a], SetTimeout ms])"
  using assms
  by (subst waitForDeploy_loop.simps)
     (auto simp: getDeployStatus_def sleep_def non_terminal_report_def terminal_def Let_def
           split: sum.splits option.splits)

lemma loop_timeout:
  "\<not> int i < m \<Longrightarrow>
   waitForDeploy_loop c a m ms i w = (Inr \<lparr>success = False, status = js ''TIMEOUT''\<rparr>, w)"
  by (subst waitForDeploy_loop.simps) simp

lemma loop_reject:
  "int i < m \<Longrightarrow> c (queries w) [a] = Inl e \<Longrightarrow>
   waitForDeploy_loop c a m ms i w = (Inl (Rejected e), w @ [GetDeployStatus [a]])"
  by (subst waitForDeploy_loop.simps) (simp add: getDeployStatus_def)

lemma loop_no_apps:
  "int i < m \<Longrightarrow> c (queries w) [a] = Inr None \<Longrightarrow>
   waitForDeploy_loop c a m ms i w = (Inl TypeError, w @ [GetDeployStatus [a]])"
  by (subst waitForDeploy_loop.simps) (simp add: getDeployStatus_def)

lemma loop_terminal:
  "int i < m \<Longrightarrow> c (queries w) [a] = Inr (Some apps) \<Longrightarrow> terminal (first_status apps) \<Longrightarrow>
   waitForDeploy_loop c a m ms i w =
     (Inr \<lparr>success = (first_status apps = Some (js ''SUCCESS'')),
          status = the (first_status apps)\<rparr>,
      w @ [GetDeployStatus [a]])"
  by (subst waitForDeploy_loop.simps) (auto simp: getDeployStatus_def terminal_def Let_def js_def)

lemma loop_decisive:
  assumes "int i < m" and "\<not> non_terminal_report (c (queries w) [a])"
  shows "waitForDeploy_loop c a m ms i w =
         (verdict (c (queries w) [a]), w @ [GetDeployStatus [a]])"
proof (cases "c (queries w) [a]")
  case (Inl e)
  then show ?thesis
    using loop_reject [of i m c w a e ms] assms(1) by (simp add: verdict_def)
next
  case (Inr resolved)
  show ?thesis
  proof (cases resolved)
    case None
    then show ?thesis
      using loop_no_apps [of i m c w a ms] assms(1) Inr by (simp add: verdict_def)
  next
    case (Some apps)
    then have "terminal (first_status apps)"
      using assms(2) Inr by (simp add: non_terminal_report_def)
    then show ?thesis
      using loop_terminal [of i m c w a apps ms] assms(1) Inr Some by (simp add: verdict_def)
  qed
qed

text \<open>\<open>k\<close> non-terminal reports in a row take the loop \<open>k\<close> iterations further.\<close>

lemma loop_skip:
  assumes "\<forall>j<k. non_terminal_report (c (queries w + j) [a])" and "int (i + k) \<le> m"
  shows "waitForDeploy_loop c a m ms i w =
         waitForDeploy_loop c a m ms (i + k) (w @ polling k a ms)"
  using assms
proof (induction k arbitrary: i w)
  case 0
  then show ?case by (simp add: polling_def)
next
  case (Suc k)
  have nt: "non_terminal_report (c (queries w) [a])" using Suc.prems(1) by force
  have lt: "int i < m" using Suc.prems(2) by simp
  let ?w1 = "w @ [GetDeployStatus [a], SetTimeout ms]"
  have q: "queries ?w1 = Suc (queries w)" by (simp add: queries_def)
  have "\<forall>j<k. non_terminal_report (c (queries ?w1 + j) [a])"
    using Suc.prems(1) q by (metis Suc_less_eq add_Suc add_Suc_right)
  moreover have "int (Suc i + k) \<le> m" using Suc.prems(2) by simp
  ultimately have "waitForDeploy_loop c a m ms (Suc i) ?w1 =
      waitForDeploy_loop c a m ms (Suc i + k) (?w1 @ polling k a ms)"
    by (rule Suc.IH)
  then show ?case
    using loop_continue [of i m c w a ms] lt nt by (simp add: polling_Suc)
qed

text \<open>Every run of the loop: some number of non-terminal reports, then a decisive reply
  or the end of the budget.\<close>

lemma loop_run:
  "\<exists>k. (\<forall>j<k. non_terminal_report (c (queries w + j) [a])) \<and>
       ((int (i + k) < m \<and> \<not> non_terminal_report (c (queries w + k) [a]) \<and>
         waitForDeploy_loop c a m ms i w =
           (verdict (c (queries w + k) [a]), w @ polling k a ms @ [GetDeployStatus [a]]))
        \<or> (k = nat (m - int i) \<and>
         waitForDeploy_loop c a m ms i w =
           (Inr \<lparr>success = False, status = js ''TIMEOUT''\<rparr>, w @ polling k a ms)))"
proof (cases "\<forall>j<nat (m - int i). non_terminal_report (c (queries w + j) [a])")
  case True
  let ?n = "nat (m - int i)"
  have "int (i + ?n) \<le> m \<or> ?n = 0" by linarith
  then have "waitForDeploy_loop c a m ms i w =
      waitForDeploy_loop c a m ms (i + ?n) (w @ polling ?n a ms)"
  proof
    assume "int (i + ?n) \<le> m"
    with True show ?thesis by (rule loop_skip)
  next
    assume "?n = 0"
    then show ?thesis by (simp add: polling_def)
  qed
  moreover have "\<not> int (i + ?n) < m" by linarith
  ultimately have "waitForDeploy_loop c a m ms i w =
      (Inr \<lparr>success = False, status = js ''TIMEOUT''\<rparr>, w @ polling ?n a ms)"
    by (simp add: loop_timeout)
  with True show ?thesis by blast
next
  case False
  define k where "k = (LEAST j. j < nat (m - int i) \<and> \<not> non_terminal_report (c (queries w + j) [a]))"
  from False have ex: "\<exists>j. j < nat (m - int i) \<and> \<not> non_terminal_report (c (queries w + j) [a])"
    by blast
  then have kP: "k < nat (m - int i) \<and> \<not> non_terminal_report (c (queries w + k) [a])"
    unfolding k_def by (rule LeastI_ex)
  have pre: "\<forall>j<k. non_terminal_report (c (queries w + j) [a])"
  proof (intro allI impI)
    fix j assume "j < k"
    then have "\<not> (j < nat (m - int i) \<and> \<not> non_terminal_report (c (queries w + j) [a]))"
      unfolding k_def by (rule not_less_Least)
    moreover have "j < nat (m - int i)" using \<open>j < k\<close> kP by simp
    ultimately show "non_terminal_report (c (queries w + j) [a])" by simp
  qed
  have lt: "int (i + k) < m" using kP by linarith
  then have "int (i + k) \<le> m" by simp
  with pre have "waitForDeploy_loop c a m ms i w =
      waitForDeploy_loop c a m ms (i + k) (w @ polling k a ms)"
    by (rule loop_skip)
  moreover have "waitForDeploy_loop c a m ms (i + k) (w @ polling k a ms) =
      (verdict (c (queries (w @ polling k a ms)) [a]), (w @ polling k a ms) @ [GetDeployStatus [a]])"
    using loop_decisive [of "i + k" m c "w @ polling k a ms" a ms] lt kP by simp
  ultimately have "waitForDeploy_loop c a m ms i w =
      (verdict (c (queries w + k) [a]), w @ polling k a ms @ [GetDeployStatus [a]])"
    by simp
  with pre lt kP show ?thesis by blast
qed

lemma waitForDeploy_run:
  "\<exists>k. (\<forall>j<k. non_terminal_report (c j [a])) \<and>
       ((int k < m \<and> \<not> non_terminal_report (c k [a]) \<and>
         waitForDeploy c a (Some m) (Some ms) [] =
           (verdict (c k [a]), polling k a ms @ [GetDeployStatus [a]]))
        \<or> (k = nat m \<and>
         waitForDeploy c a (Some m) (Some ms) [] =
           (Inr \<lparr>success = False, status = js ''TIMEOUT''\<rparr>, polling k a ms)))"
  using loop_run [of c "[]" a 0 m ms] by (simp add: waitForDeploy_def queries_def)

lemma waitForDeploy_prefix:
  assumes "\<forall>j<k. non_terminal_report (c j [a])" and "int k \<le> m"
  shows "waitForDeploy c a (Some m) (Some ms) [] = waitForDeploy_loop c a m ms k (polling k a ms)"
  using loop_skip [of k c "[]" a 0 m ms] assms by (simp add: waitForDeploy_def queries_def)

lemma verdict_terminal:
  assumes "\<not> non_terminal_report r" and "verdict r = Inr out"
  shows "\<exists>s. reports r s \<and> terminal (Some s) \<and> out = \<lparr>success = (s = js ''SUCCESS''), status = s\<rparr>"
  using assms
  by (cases r)
     (auto simp: non_terminal_report_def verdict_def reports_def terminal_def
           split: option.splits)

lemma verdict_reject: "verdict r = Inl (Rejected e) \<longleftrightarrow> r = Inl e"
  by (cases r) (simp_all add: verdict_def split: option.splits)

lemma verdict_no_apps: "verdict r = Inl TypeError \<longleftrightarrow> r = Inr None"
  by (cases r) (simp_all add: verdict_def split: option.splits)

lemma js_timeout_not_terminal: "\<not> terminal (Some (js ''TIMEOUT''))"
  by (simp add: terminal_def js_def)

text \<open>Two clients whose replies make the loop body go the same way give the same run.\<close>

lemma loop_cong:
  assumes "\<forall>n. classify (c1 n [a]) = classify (c2 n [a])"
  shows "waitForDeploy_loop c1 a m ms i w = waitForDeploy_loop c2 a m ms i w"
proof (induction "nat (m - int i)" arbitrary: i w)
  case 0
  then have "\<not> int i < m" by simp
  then show ?case by (simp add: loop_timeout)
next
  case (Suc n)
  then have lt: "int i < m" by linarith
  have same: "classify (c1 (queries w) [a]) = classify (c2 (queries w) [a])"
    using assms by blast
  show ?case
  proof (cases "non_terminal_report (c1 (queries w) [a])")
    case True
    then have nt2: "non_terminal_report (c2 (queries w) [a])"
      using same by (simp add: classify_def split: if_splits)
    have "n = nat (m - int (Suc i))" using Suc.hyps(2) by simp
    then have "waitForDeploy_loop c1 a m ms (Suc i) (w @ [GetDeployStatus [a], SetTimeout ms]) =
        waitForDeploy_loop c2 a m ms (Suc i) (w @ [GetDeployStatus [a], SetTimeout ms])"
      by (rule Suc.hyps(1))
    then show ?thesis
      using loop_continue [of i m c1 w a ms] loop_continue [of i m c2 w a ms] lt True nt2
      by simp
  next
    case False
    then have nt2: "\<not> non_terminal_report (c2 (queries w) [a])"
      and v: "verdict (c1 (queries w) [a]) = verdict (c2 (queries w) [a])"
      using same by (simp_all add: classify_def split: if_splits)
    show ?thesis
      using loop_decisive [of i m c1 w a ms] loop_decisive [of i m c2 w a ms] lt False nt2 v
      by simp
  qed
qed

lemma classify_first_entry:
  "first_entry r1 = first_entry r2 \<Longrightarrow> classify r1 = classify r2"
  by (cases r1; cases r2)
     (auto simp: first_entry_def classify_def non_terminal_report_def verdict_def
           split: list.splits option.splits)

lemma classify_as_processing: "classify (as_processing a r) = classify r"
  by (auto simp: as_processing_def classify_def non_terminal_report_def terminal_def js_def
        split: option.splits)

lemma set_polling: "set (polling k a ms) \<subseteq> {GetDeployStatus [a], SetTimeout ms}"
  by (induction k) (auto simp: polling_def)

lemma reports_non_terminal:
  "reports r s \<Longrightarrow> \<not> terminal (Some s) \<Longrightarrow> non_terminal_report r"
  by (cases r) (simp_all add: reports_def non_terminal_report_def split: option.splits)

lemma processing_not_terminal: "\<not> terminal (Some (js ''PROCESSING''))"
  by (simp add: terminal_def js_def)

lemma loop_success_iff:
  assumes "waitForDeploy_loop c a m ms i w = (Inr out, w')"
  shows "success out \<longleftrightarrow> status out = js ''SUCCESS''"
proof -
  from loop_run [of c w a i m ms] obtain k where
    alt: "(\<not> non_terminal_report (c (queries w + k) [a]) \<and>
         waitForDeploy_loop c a m ms i w =
           (verdict (c (queries w + k) [a]), w @ polling k a ms @ [GetDeployStatus [a]]))
        \<or> waitForDeploy_loop c a m ms i w =
           (Inr \<lparr>success = False, status = js ''TIMEOUT''\<rparr>, w @ polling k a ms)"
    by blast
  then show ?thesis
  proof
    assume d: "\<not> non_terminal_report (c (queries w + k) [a]) \<and>
         waitForDeploy_loop c a m ms i w =
           (verdict (c (queries w + k) [a]), w @ polling k a ms @ [GetDeployStatus [a]])"
    then have "verdict (c (queries w + k) [a]) = Inr out" using assms by simp
    with d obtain s where "out = \<lparr>success = (s = js ''SUCCESS''), status = s\<rparr>"
      using verdict_terminal by blast
    then show ?thesis by simp
  next
    assume "waitForDeploy_loop c a m ms i w =
           (Inr \<lparr>success = False, status = js ''TIMEOUT''\<rparr>, w @ polling k a ms)"
    then have "out = \<lparr>success = False, status = js ''TIMEOUT''\<rparr>" using assms by simp
    then show ?thesis by (simp add: js_def)
  qed
qed

lemma polling_2: "polling 2 a ms = [GetDeployStatus [a], SetTimeout ms, GetDeployStatus [a], SetTimeout ms]"
  by (simp add: polling_def numeral_2_eq_2)

lemma queries_query [simp]: "queries [GetDeployStatus b] = 1"
  by (simp add: queries_def)

lemma suspensions_query [simp]: "suspensions [GetDeployStatus b] = 0"
  by (simp add: suspensions_def)

lemma polling_0: "polling 0 a ms = []"
  by (simp add: polling_def)

lemma polling_1: "polling (Suc 0) a ms = [GetDeployStatus [a], SetTimeout ms]"
  by (simp add: polling_def)

lemma loop_reports_terminal:
  assumes "int i < m" and "reports (c (queries w) [a]) s" and "terminal (Some s)"
  shows "waitForDeploy_loop c a m ms i w =
     (Inr \<lparr>success = (s = js ''SUCCESS''), status = s\<rparr>, w @ [GetDeployStatus [a]])"
proof -
  from assms(2) obtain apps where r: "c (queries w) [a] = Inr (Some apps)"
    and f: "first_status apps = Some s"
    by (cases "c (queries w) [a]") (auto simp: reports_def split: option.splits)
  show ?thesis using loop_terminal [of i m c w a apps ms] assms(1,3) r f by simp
qed


lemma length_polling [simp]: "length (polling k a ms) = 2 * k"
  by (induction k) (simp_all add: polling_def)




lemma polling_events:
  "ev \<in> set (polling k a ms) \<Longrightarrow> ev = GetDeployStatus [a] \<or> ev = SetTimeout ms"
  using set_polling [of k a ms] by blast

section \<open>Properties of \<open>split\<close> and \<open>join\<close>\<close>

lemma js_split_not_Nil [simp]: "js_split sep s \<noteq> []"
  by (induction s) (simp_all add: Let_def)

lemma js_join_split [simp]: "js_join sep (js_split sep s) = s"
proof (induction s)
  case Nil
  show ?case by simp
next
  case (Cons c cs)
  obtain p ps where ps: "js_split sep cs = p # ps"
    by (cases "js_split sep cs") simp_all
  show ?case using Cons.IH ps by (cases ps) (simp_all add: Let_def)
qed

lemma js_split_append:
  "js_split sep (xs @ sep # ys) = js_split sep xs @ js_split sep ys"
  by (induction xs) (simp_all add: Let_def)

lemma js_split_no_sep: "sep \<notin> set s \<Longrightarrow> js_split sep s = [s]"
  by (induction s) (auto simp: Let_def)

lemma js_split_key:
  "sep \<notin> set key \<Longrightarrow> js_split sep (key @ sep # rest) = key # js_split sep rest"
  by (simp add: js_split_append js_split_no_sep)

lemma startsWith_append: "key \<noteq> [] \<Longrightarrow> startsWith (key @ s) [c] = startsWith key [c]"
  by (cases key) simp_all

section \<open>The claims about \<open>waitForDeploy\<close>\<close>

text \<open>
  C1 (timeout boundary).  For a positive \<open>maxAttempts\<close>, when every status query of the
  run answers with a non-terminal report, \<open>waitForDeploy\<close> returns
  \<open>{success: false, status: "TIMEOUT"}\<close> after exactly \<open>maxAttempts\<close> queries.
  Conversely, an outcome whose status is \<open>"TIMEOUT"\<close> is only ever the one made when the
  budget runs out: all \<open>maxAttempts\<close> queries were issued, each answered with a
  non-terminal report, so the value is never one echoed from a response (a response
  that carries the string \<open>"TIMEOUT"\<close> is itself a non-terminal report).
\<close>

theorem waitForDeploy_timeout_boundary:
  "(0 < maxAttempts \<longrightarrow> (\<forall>n<nat maxAttempts. non_terminal_report (client n [appId])) \<longrightarrow>
      waitForDeploy client appId (Some maxAttempts) (Some intervalMs) [] =
        (Inr \<lparr>success = False, status = js ''TIMEOUT''\<rparr>,
         polling (nat maxAttempts) appId intervalMs) \<and>
      queries (polling (nat maxAttempts) appId intervalMs) = nat maxAttempts) \<and>
   (waitForDeploy client appId (Some maxAttempts) (Some intervalMs) [] = (Inr out, w) \<longrightarrow>
    status out = js ''TIMEOUT'' \<longrightarrow>
      \<not> success out \<and> w = polling (nat maxAttempts) appId intervalMs \<and>
      queries w = nat maxAttempts \<and>
      (\<forall>n<nat maxAttempts. non_terminal_report (client n [appId])))"
proof (intro conjI impI)
  assume pos: "0 < maxAttempts"
    and all: "\<forall>n<nat maxAttempts. non_terminal_report (client n [appId])"
  have "int (nat maxAttempts) \<le> maxAttempts" using pos by simp
  with all have "waitForDeploy client appId (Some maxAttempts) (Some intervalMs) [] =
      waitForDeploy_loop client appId maxAttempts intervalMs (nat maxAttempts)
        (polling (nat maxAttempts) appId intervalMs)"
    by (rule waitForDeploy_prefix)
  moreover have "\<not> int (nat maxAttempts) < maxAttempts" by simp
  ultimately show "waitForDeploy client appId (Some maxAttempts) (Some intervalMs) [] =
        (Inr \<lparr>success = False, status = js ''TIMEOUT''\<rparr>,
         polling (nat maxAttempts) appId intervalMs)"
    by (simp add: loop_timeout)
  show "queries (polling (nat maxAttempts) appId intervalMs) = nat maxAttempts" by simp
next
  assume run: "waitForDeploy client appId (Some maxAttempts) (Some intervalMs) [] = (Inr out, w)"
    and st: "status out = js ''TIMEOUT''"
  from waitForDeploy_run [of client appId maxAttempts intervalMs] obtain k where
    pre: "\<forall>j<k. non_terminal_report (client j [appId])" and
    alt: "(\<not> non_terminal_report (client k [appId]) \<and>
         waitForDeploy client appId (Some maxAttempts) (Some intervalMs) [] =
           (verdict (client k [appId]), polling k appId intervalMs @ [GetDeployStatus [appId]]))
        \<or> (k = nat maxAttempts \<and>
         waitForDeploy client appId (Some maxAttempts) (Some intervalMs) [] =
           (Inr \<lparr>success = False, status = js ''TIMEOUT''\<rparr>, polling k appId intervalMs))"
    by blast
  have notdec: "\<not> (\<not> non_terminal_report (client k [appId]) \<and>
         waitForDeploy client appId (Some maxAttempts) (Some intervalMs) [] =
           (verdict (client k [appId]), polling k appId intervalMs @ [GetDeployStatus [appId]]))"
  proof
    assume d: "\<not> non_terminal_report (client k [appId]) \<and>
         waitForDeploy client appId (Some maxAttempts) (Some intervalMs) [] =
           (verdict (client k [appId]), polling k appId intervalMs @ [GetDeployStatus [appId]])"
    then have "verdict (client k [appId]) = Inr out" using run by simp
    with d obtain s where "terminal (Some s)" and "out = \<lparr>success = (s = js ''SUCCESS''), status = s\<rparr>"
      using verdict_terminal by blast
    then have "terminal (Some (js ''TIMEOUT''))" using st by simp
    then show False using js_timeout_not_terminal by simp
  qed
  with alt have k: "k = nat maxAttempts" and
    res: "waitForDeploy client appId (Some maxAttempts) (Some intervalMs) [] =
           (Inr \<lparr>success = False, status = js ''TIMEOUT''\<rparr>, polling k appId intervalMs)"
    by blast+
  from res run have o: "out = \<lparr>success = False, status = js ''TIMEOUT''\<rparr>"
    and w: "w = polling k appId intervalMs" by simp_all
  show "\<not> success out" using o by simp
  show "w = polling (nat maxAttempts) appId intervalMs" using w k by simp
  show "queries w = nat maxAttempts" using w k by simp
  show "\<forall>n<nat maxAttempts. non_terminal_report (client n [appId])" using pre k by simp
qed

theorem waitForDeploy_timeout_boundary_witness:
  "waitForDeploy
     (script [Inr (Some [DeployEntry 7 (Some (js ''PROCESSING''))])]
        (Inr (Some [DeployEntry 7 (Some (js ''TIMEOUT''))])) :: (string, nat) client)
     7 (Some 2) (Some 10) [] =
   (Inr \<lparr>success = False, status = js ''TIMEOUT''\<rparr>,
    [GetDeployStatus [7], SetTimeout 10, GetDeployStatus [7], SetTimeout 10]) \<and>
   queries [GetDeployStatus [7::nat], SetTimeout 10, GetDeployStatus [7], SetTimeout 10] = 2 \<and>
   non_terminal_report
     ((script [Inr (Some [DeployEntry 7 (Some (js ''PROCESSING''))])]
        (Inr (Some [DeployEntry 7 (Some (js ''TIMEOUT''))])) :: (string, nat) client) 1 [7])"
proof -
  let ?c = "script [Inr (Some [DeployEntry 7 (Some (js ''PROCESSING''))])]
        (Inr (Some [DeployEntry 7 (Some (js ''TIMEOUT''))])) :: (string, nat) client"
  let ?out = "\<lparr>success = False, status = js ''TIMEOUT''\<rparr>"
  have pos: "(0::int) < 2" by simp
  have all: "\<forall>n<nat 2. non_terminal_report (?c n [7])"
    by (simp add: script_def non_terminal_report_def terminal_def js_def)
  have p: "polling (nat 2) (7::nat) 10 =
      [GetDeployStatus [7], SetTimeout 10, GetDeployStatus [7], SetTimeout 10]"
    by (simp add: polling_def numeral_2_eq_2)
  from waitForDeploy_timeout_boundary [of 2 ?c 7 10, THEN conjunct1] pos all
  have run: "waitForDeploy ?c 7 (Some 2) (Some 10) [] = (Inr ?out, polling (nat 2) 7 10) \<and>
    queries (polling (nat 2) (7::nat) 10) = nat 2"
    by blast
  then have "waitForDeploy ?c 7 (Some 2) (Some 10) [] = (Inr ?out, polling (nat 2) 7 10)"
    and "status ?out = js ''TIMEOUT''"
    by simp_all
  with waitForDeploy_timeout_boundary
    [of 2 ?c 7 10 ?out "polling (nat 2) 7 10", THEN conjunct2]
  have "\<forall>n<nat 2. non_terminal_report (?c n [7])" by blast
  then have "non_terminal_report (?c 1 [7])" by simp
  with run show ?thesis unfolding p by simp
qed

text \<open>
  C2 (eventual success).  When the first \<open>k\<close> status queries report \<open>PROCESSING\<close> and
  query \<open>k + 1\<close> reports \<open>SUCCESS\<close>, with \<open>k < maxAttempts\<close>, the waiter returns
  \<open>{success: true, status: "SUCCESS"}\<close> after exactly \<open>k + 1\<close> queries and \<open>k\<close>
  suspensions.  With \<open>k = 0\<close>: \<open>SUCCESS\<close> on the first query returns after one query and
  no suspension.
\<close>

theorem waitForDeploy_eventual_success:
  assumes "int k < maxAttempts"
    and "\<forall>j<k. reports (client j [appId]) (js ''PROCESSING'')"
    and "reports (client k [appId]) (js ''SUCCESS'')"
  shows "waitForDeploy client appId (Some maxAttempts) (Some intervalMs) [] =
           (Inr \<lparr>success = True, status = js ''SUCCESS''\<rparr>,
            polling k appId intervalMs @ [GetDeployStatus [appId]]) \<and>
         queries (polling k appId intervalMs @ [GetDeployStatus [appId]]) = k + 1 \<and>
         suspensions (polling k appId intervalMs @ [GetDeployStatus [appId]]) = k"
proof -
  have pre: "\<forall>j<k. non_terminal_report (client j [appId])"
    using assms(2) reports_non_terminal processing_not_terminal by blast
  have "int k \<le> maxAttempts" using assms(1) by simp
  with pre have "waitForDeploy client appId (Some maxAttempts) (Some intervalMs) [] =
      waitForDeploy_loop client appId maxAttempts intervalMs k (polling k appId intervalMs)"
    by (rule waitForDeploy_prefix)
  moreover have "terminal (Some (js ''SUCCESS''))" by (simp add: terminal_def)
  ultimately have "waitForDeploy client appId (Some maxAttempts) (Some intervalMs) [] =
           (Inr \<lparr>success = True, status = js ''SUCCESS''\<rparr>,
            polling k appId intervalMs @ [GetDeployStatus [appId]])"
    using loop_reports_terminal
      [of k maxAttempts client "polling k appId intervalMs" appId "js ''SUCCESS''" intervalMs]
      assms(1,3)
    by simp
  then show ?thesis by simp
qed

theorem waitForDeploy_eventual_success_witness:
  "waitForDeploy
     (script [Inr (Some [DeployEntry 7 (Some (js ''PROCESSING''))]),
              Inr (Some [DeployEntry 7 (Some (js ''PROCESSING''))])]
        (Inr (Some [DeployEntry 7 (Some (js ''SUCCESS''))])) :: (string, nat) client)
     7 (Some 3) (Some 10) [] =
   (Inr \<lparr>success = True, status = js ''SUCCESS''\<rparr>,
    [GetDeployStatus [7], SetTimeout 10, GetDeployStatus [7], SetTimeout 10,
     GetDeployStatus [7]]) \<and>
   waitForDeploy
     (script [] (Inr (Some [DeployEntry 7 (Some (js ''SUCCESS''))])) :: (string, nat) client)
     7 (Some 1) (Some 10) [] =
   (Inr \<lparr>success = True, status = js ''SUCCESS''\<rparr>, [GetDeployStatus [7]])"
proof -
  let ?c = "script [Inr (Some [DeployEntry 7 (Some (js ''PROCESSING''))]),
              Inr (Some [DeployEntry 7 (Some (js ''PROCESSING''))])]
        (Inr (Some [DeployEntry 7 (Some (js ''SUCCESS''))])) :: (string, nat) client"
  let ?d = "script [] (Inr (Some [DeployEntry 7 (Some (js ''SUCCESS''))])) :: (string, nat) client"
  have a1: "int 2 < 3" by simp
  have a2: "\<forall>j<2. reports (?c j [7]) (js ''PROCESSING'')"
    by (simp add: script_def reports_def less_2_cases_iff)
  have a3: "reports (?c 2 [7]) (js ''SUCCESS'')"
    by (simp add: script_def reports_def)
  have run2: "waitForDeploy ?c 7 (Some 3) (Some 10) [] =
      (Inr \<lparr>success = True, status = js ''SUCCESS''\<rparr>, polling 2 7 10 @ [GetDeployStatus [7]])"
    using waitForDeploy_eventual_success [of 2 3 ?c 7 10] a1 a2 a3 by blast
  have b1: "int 0 < 1" by simp
  have b2: "\<forall>j<0. reports (?d j [7]) (js ''PROCESSING'')" by simp
  have b3: "reports (?d 0 [7]) (js ''SUCCESS'')"
    by (simp add: script_def reports_def)
  have run0: "waitForDeploy ?d 7 (Some 1) (Some 10) [] =
      (Inr \<lparr>success = True, status = js ''SUCCESS''\<rparr>, polling 0 7 10 @ [GetDeployStatus [7]])"
    using waitForDeploy_eventual_success [of 0 1 ?d 7 10] b1 b2 b3 by blast
  from run2 run0 show ?thesis by (simp add: polling_2 polling_0)
qed

text \<open>
  C3 (success flag).  Whatever the client answers, whatever \<open>maxAttempts\<close> and
  \<open>intervalMs\<close> are (given or defaulted), an outcome returned by \<open>waitForDeploy\<close> has
  \<open>success\<close> true exactly when its \<open>status\<close> is \<open>"SUCCESS"\<close>.
\<close>

theorem waitForDeploy_success_iff:
  "waitForDeploy client appId maxAttempts intervalMs w = (Inr out, w') \<Longrightarrow>
   success out \<longleftrightarrow> status out = js ''SUCCESS''"
  unfolding waitForDeploy_def by (rule loop_success_iff)

theorem waitForDeploy_success_iff_witness:
  "waitForDeploy
     (script [Inr (Some [DeployEntry 7 (Some (js ''PROCESSING''))])]
        (Inr (Some [DeployEntry 7 (Some (js ''CANCEL''))])) :: (string, nat) client)
     7 None None [] =
   (Inr \<lparr>success = False, status = js ''CANCEL''\<rparr>,
    [GetDeployStatus [7], SetTimeout 1000, GetDeployStatus [7]]) \<and>
   (success \<lparr>success = False, status = js ''CANCEL''\<rparr> \<longleftrightarrow>
    status \<lparr>success = False, status = js ''CANCEL''\<rparr> = js ''SUCCESS'')"
proof -
  let ?c = "script [Inr (Some [DeployEntry 7 (Some (js ''PROCESSING''))])]
        (Inr (Some [DeployEntry 7 (Some (js ''CANCEL''))])) :: (string, nat) client"
  have run: "waitForDeploy ?c 7 None None [] =
      (Inr \<lparr>success = False, status = js ''CANCEL''\<rparr>,
       [GetDeployStatus [7], SetTimeout 1000, GetDeployStatus [7]])"
    by (simp add: waitForDeploy_def waitForDeploy_loop.simps getDeployStatus_def sleep_def
          queries_def script_def js_def)
  from waitForDeploy_success_iff [OF run] run show ?thesis by blast
qed

text \<open>
  C4 (terminal failure).  When query \<open>k + 1\<close> is the first to report \<open>FAIL\<close> or
  \<open>CANCEL\<close>, after \<open>k\<close> non-terminal reports, the waiter returns
  \<open>{success: false, status}\<close> with that status at once: the query that saw it is the
  last effect of the run, after \<open>k + 1\<close> queries and \<open>k\<close> suspensions, and the run
  consists of status queries and suspensions only.
\<close>

theorem waitForDeploy_terminal_failure:
  assumes "int k < maxAttempts"
    and "\<forall>j<k. non_terminal_report (client j [appId])"
    and "reports (client k [appId]) s"
    and "s = js ''FAIL'' \<or> s = js ''CANCEL''"
  shows "waitForDeploy client appId (Some maxAttempts) (Some intervalMs) [] =
           (Inr \<lparr>success = False, status = s\<rparr>,
            polling k appId intervalMs @ [GetDeployStatus [appId]]) \<and>
         queries (polling k appId intervalMs @ [GetDeployStatus [appId]]) = k + 1 \<and>
         suspensions (polling k appId intervalMs @ [GetDeployStatus [appId]]) = k \<and>
         last (polling k appId intervalMs @ [GetDeployStatus [appId]]) = GetDeployStatus [appId]"
proof -
  have "int k \<le> maxAttempts" using assms(1) by simp
  with assms(2) have "waitForDeploy client appId (Some maxAttempts) (Some intervalMs) [] =
      waitForDeploy_loop client appId maxAttempts intervalMs k (polling k appId intervalMs)"
    by (rule waitForDeploy_prefix)
  moreover have "terminal (Some s)" using assms(4) by (auto simp: terminal_def)
  moreover have "s \<noteq> js ''SUCCESS''" using assms(4) by (auto simp: js_def)
  ultimately have "waitForDeploy client appId (Some maxAttempts) (Some intervalMs) [] =
           (Inr \<lparr>success = False, status = s\<rparr>,
            polling k appId intervalMs @ [GetDeployStatus [appId]])"
    using loop_reports_terminal
      [of k maxAttempts client "polling k appId intervalMs" appId s intervalMs] assms(1,3)
    by simp
  then show ?thesis by simp
qed

theorem waitForDeploy_terminal_failure_witness:
  "waitForDeploy
     (script [Inr (Some []), Inr (Some [DeployEntry 7 (Some (js ''FAIL''))])]
        (Inr (Some [DeployEntry 7 (Some (js ''SUCCESS''))])) :: (string, nat) client)
     7 (Some 5) (Some 10) [] =
   (Inr \<lparr>success = False, status = js ''FAIL''\<rparr>,
    [GetDeployStatus [7], SetTimeout 10, GetDeployStatus [7]])"
proof -
  let ?c = "script [Inr (Some []), Inr (Some [DeployEntry 7 (Some (js ''FAIL''))])]
        (Inr (Some [DeployEntry 7 (Some (js ''SUCCESS''))])) :: (string, nat) client"
  have "int 1 < 5" by simp
  moreover have "\<forall>j<1. non_terminal_report (?c j [7])"
    by (simp add: script_def non_terminal_report_def terminal_def)
  moreover have "reports (?c 1 [7]) (js ''FAIL'')"
    by (simp add: script_def reports_def)
  ultimately have "waitForDeploy ?c 7 (Some 5) (Some 10) [] =
      (Inr \<lparr>success = False, status = js ''FAIL''\<rparr>, polling 1 7 10 @ [GetDeployStatus [7]])"
    using waitForDeploy_terminal_failure [of 1 5 ?c 7 "js ''FAIL''" 10] by blast
  then show ?thesis by (simp add: polling_1)
qed

text \<open>
  C6 (zero-attempt boundary).  With \<open>maxAttempts \<le> 0\<close> the waiter returns
  \<open>{success: false, status: "TIMEOUT"}\<close> and leaves the world as it found it: no status
  query, no suspension.
\<close>

theorem waitForDeploy_zero_attempts:
  assumes "maxAttempts \<le> 0"
  shows "waitForDeploy client appId (Some maxAttempts) intervalMs w =
           (Inr \<lparr>success = False, status = js ''TIMEOUT''\<rparr>, w) \<and>
         queries (snd (waitForDeploy client appId (Some maxAttempts) intervalMs [])) = 0 \<and>
         suspensions (snd (waitForDeploy client appId (Some maxAttempts) intervalMs [])) = 0"
proof -
  have "\<not> int 0 < maxAttempts" using assms by simp
  then have "\<And>ms v. waitForDeploy_loop client appId maxAttempts ms 0 v =
      (Inr \<lparr>success = False, status = js ''TIMEOUT''\<rparr>, v)"
    by (rule loop_timeout)
  then show ?thesis by (simp add: waitForDeploy_def queries_def suspensions_def)
qed

theorem waitForDeploy_zero_attempts_witness:
  "waitForDeploy (script [] (Inr (Some [DeployEntry 7 (Some (js ''SUCCESS''))])) :: (string, nat) client)
     7 (Some 0) (Some 10) [] =
     (Inr \<lparr>success = False, status = js ''TIMEOUT''\<rparr>, []) \<and>
   waitForDeploy (script [] (Inr (Some [DeployEntry 7 (Some (js ''SUCCESS''))])) :: (string, nat) client)
     7 (Some (- 3)) None [] =
     (Inr \<lparr>success = False, status = js ''TIMEOUT''\<rparr>, [])"
proof -
  let ?c = "script [] (Inr (Some [DeployEntry 7 (Some (js ''SUCCESS''))])) :: (string, nat) client"
  have "(0::int) \<le> 0" and "(- 3::int) \<le> 0" by simp_all
  then show ?thesis
    using waitForDeploy_zero_attempts [of 0 ?c 7 "Some 10" "[]"]
      waitForDeploy_zero_attempts [of "- 3" ?c 7 None "[]"]
    by blast
qed

text \<open>
  C7 (errors of the client).  When a status query of the run rejects with \<open>err\<close>, after
  \<open>k\<close> non-terminal reports, the run ends there with the same \<open>err\<close> and no outcome:
  that query is the last effect, nothing is retried.
\<close>

theorem waitForDeploy_error_propagates:
  assumes "int k < maxAttempts"
    and "\<forall>j<k. non_terminal_report (client j [appId])"
    and "client k [appId] = Inl err"
  shows "waitForDeploy client appId (Some maxAttempts) (Some intervalMs) [] =
           (Inl (Rejected err), polling k appId intervalMs @ [GetDeployStatus [appId]]) \<and>
         queries (polling k appId intervalMs @ [GetDeployStatus [appId]]) = k + 1 \<and>
         suspensions (polling k appId intervalMs @ [GetDeployStatus [appId]]) = k"
proof -
  have "int k \<le> maxAttempts" using assms(1) by simp
  with assms(2) have "waitForDeploy client appId (Some maxAttempts) (Some intervalMs) [] =
      waitForDeploy_loop client appId maxAttempts intervalMs k (polling k appId intervalMs)"
    by (rule waitForDeploy_prefix)
  then have "waitForDeploy client appId (Some maxAttempts) (Some intervalMs) [] =
           (Inl (Rejected err), polling k appId intervalMs @ [GetDeployStatus [appId]])"
    using loop_reject [of k maxAttempts client "polling k appId intervalMs" appId err intervalMs]
      assms(1,3)
    by simp
  then show ?thesis by simp
qed

theorem waitForDeploy_error_propagates_witness:
  "waitForDeploy
     (script [Inr (Some [DeployEntry 7 (Some (js ''PROCESSING''))])] (Inl ''ECONNRESET'')
        :: (string, nat) client)
     7 (Some 3) (Some 10) [] =
   (Inl (Rejected ''ECONNRESET''), [GetDeployStatus [7], SetTimeout 10, GetDeployStatus [7]])"
proof -
  let ?c = "script [Inr (Some [DeployEntry 7 (Some (js ''PROCESSING''))])] (Inl ''ECONNRESET'')
        :: (string, nat) client"
  have "int 1 < 3" by simp
  moreover have "\<forall>j<1. non_terminal_report (?c j [7])"
    by (simp add: script_def non_terminal_report_def terminal_def js_def)
  moreover have "?c 1 [7] = Inl ''ECONNRESET''"
    by (simp add: script_def)
  ultimately have "waitForDeploy ?c 7 (Some 3) (Some 10) [] =
      (Inl (Rejected ''ECONNRESET''), polling 1 7 10 @ [GetDeployStatus [7]])"
    using waitForDeploy_error_propagates [of 1 3 ?c 7 "''ECONNRESET''" 10] by blast
  then show ?thesis by (simp add: polling_1)
qed




text \<open>
  C9 (batch of one, first entry only).  Every status query of a run submits the batch
  \<open>[appId]\<close>.  Two clients whose replies agree on the first entry of every response
  (and on rejections and on responses without \<open>apps\<close>) give the same result and the same
  effects, hence the same number of queries; entries after the first do not matter.
\<close>

theorem waitForDeploy_first_entry_only:
  "(\<forall>ev \<in> set (snd (waitForDeploy client appId (Some maxAttempts) (Some intervalMs) [])).
      is_query ev \<longrightarrow> ev = GetDeployStatus [appId]) \<and>
   ((\<forall>n. first_entry (client n [appId]) = first_entry (client' n [appId])) \<longrightarrow>
      waitForDeploy client appId (Some maxAttempts) (Some intervalMs) [] =
      waitForDeploy client' appId (Some maxAttempts) (Some intervalMs) [])"
proof (intro conjI ballI impI)
  fix ev
  assume ev: "ev \<in> set (snd (waitForDeploy client appId (Some maxAttempts) (Some intervalMs) []))"
    and q: "is_query ev"
  from waitForDeploy_run [of client appId maxAttempts intervalMs] obtain k where
    "snd (waitForDeploy client appId (Some maxAttempts) (Some intervalMs) []) =
       polling k appId intervalMs @ [GetDeployStatus [appId]]
     \<or> snd (waitForDeploy client appId (Some maxAttempts) (Some intervalMs) []) =
       polling k appId intervalMs"
    by force
  then have "ev \<in> set (polling k appId intervalMs) \<or> ev = GetDeployStatus [appId]"
    using ev by auto
  then show "ev = GetDeployStatus [appId]"
    using q polling_events [of ev k appId intervalMs] by auto
next
  assume "\<forall>n. first_entry (client n [appId]) = first_entry (client' n [appId])"
  then have "\<forall>n. classify (client n [appId]) = classify (client' n [appId])"
    using classify_first_entry by blast
  then show "waitForDeploy client appId (Some maxAttempts) (Some intervalMs) [] =
      waitForDeploy client' appId (Some maxAttempts) (Some intervalMs) []"
    unfolding waitForDeploy_def by (simp add: loop_cong)
qed

theorem waitForDeploy_first_entry_only_witness:
  "waitForDeploy
     (script [Inr (Some [DeployEntry 7 (Some (js ''PROCESSING'')), DeployEntry 8 (Some (js ''FAIL''))]),
              Inr (Some [DeployEntry 7 (Some (js ''SUCCESS'')), DeployEntry 9 (Some (js ''CANCEL''))])]
        (Inl ''ECONNRESET'') :: (string, nat) client)
     7 (Some 3) (Some 10) [] =
   waitForDeploy
     (script [Inr (Some [DeployEntry 7 (Some (js ''PROCESSING''))]),
              Inr (Some [DeployEntry 7 (Some (js ''SUCCESS'')), DeployEntry 8 None])]
        (Inl ''ECONNRESET'') :: (string, nat) client)
     7 (Some 3) (Some 10) [] \<and>
   waitForDeploy
     (script [Inr (Some [DeployEntry 7 (Some (js ''PROCESSING''))]),
              Inr (Some [DeployEntry 7 (Some (js ''SUCCESS'')), DeployEntry 8 None])]
        (Inl ''ECONNRESET'') :: (string, nat) client)
     7 (Some 3) (Some 10) [] =
   (Inr \<lparr>success = True, status = js ''SUCCESS''\<rparr>,
    [GetDeployStatus [7], SetTimeout 10, GetDeployStatus [7]])"
proof -
  let ?c = "script [Inr (Some [DeployEntry 7 (Some (js ''PROCESSING'')), DeployEntry 8 (Some (js ''FAIL''))]),
              Inr (Some [DeployEntry 7 (Some (js ''SUCCESS'')), DeployEntry 9 (Some (js ''CANCEL''))])]
        (Inl ''ECONNRESET'') :: (string, nat) client"
  let ?d = "script [Inr (Some [DeployEntry 7 (Some (js ''PROCESSING''))]),
              Inr (Some [DeployEntry 7 (Some (js ''SUCCESS'')), DeployEntry 8 None])]
        (Inl ''ECONNRESET'') :: (string, nat) client"
  have agree: "\<forall>n. first_entry (?c n [7]) = first_entry (?d n [7])"
    by (simp add: script_def first_entry_def nth_Cons')
  have same: "waitForDeploy ?c 7 (Some 3) (Some 10) [] = waitForDeploy ?d 7 (Some 3) (Some 10) []"
    using waitForDeploy_first_entry_only [of ?c 7 3 10 ?d, THEN conjunct2] agree by blast
  have "waitForDeploy ?d 7 (Some 3) (Some 10) [] =
      (Inr \<lparr>success = True, status = js ''SUCCESS''\<rparr>,
       [GetDeployStatus [7], SetTimeout 10, GetDeployStatus [7]])"
    by (simp add: waitForDeploy_def waitForDeploy_loop.simps getDeployStatus_def sleep_def
          queries_def script_def js_def)
  with same show ?thesis by simp
qed

text \<open>
  C5 (unrecognized status), as amended.  A poll of the loop whose response has an
  \<open>apps\<close> array and carries a status other than \<open>SUCCESS\<close>, \<open>FAIL\<close>, \<open>CANCEL\<close> (another
  string, no status field, an empty array) raises nothing: the loop suspends and goes
  on to the next attempt.  The whole run is the one obtained when every such response is
  replaced by a \<open>PROCESSING\<close> report.  A run that reaches such a poll at query \<open>k + 1\<close>
  ends with \<open>TIMEOUT\<close>, with a terminal status reported by a later query, with the error
  of a later query that rejects, or with the \<open>TypeError\<close> raised when a later query
  resolves to a value without an \<open>apps\<close> array.
\<close>

theorem waitForDeploy_unrecognized_status:
  "(int i < maxAttempts \<longrightarrow> client (queries w) [appId] = Inr (Some apps) \<longrightarrow>
      \<not> terminal (first_status apps) \<longrightarrow>
      waitForDeploy_loop client appId maxAttempts intervalMs i w =
      waitForDeploy_loop client appId maxAttempts intervalMs (Suc i)
        (w @ [GetDeployStatus [appId], SetTimeout intervalMs])) \<and>
   waitForDeploy (\<lambda>n batch. as_processing appId (client n batch)) appId
       (Some maxAttempts) (Some intervalMs) [] =
     waitForDeploy client appId (Some maxAttempts) (Some intervalMs) [] \<and>
   (int k < maxAttempts \<longrightarrow> (\<forall>j\<le>k. non_terminal_report (client j [appId])) \<longrightarrow>
      fst (waitForDeploy client appId (Some maxAttempts) (Some intervalMs) []) =
        Inr \<lparr>success = False, status = js ''TIMEOUT''\<rparr> \<or>
      (\<exists>j s. k < j \<and> int j < maxAttempts \<and> reports (client j [appId]) s \<and>
         terminal (Some s) \<and>
         fst (waitForDeploy client appId (Some maxAttempts) (Some intervalMs) []) =
           Inr \<lparr>success = (s = js ''SUCCESS''), status = s\<rparr>) \<or>
      (\<exists>j err. k < j \<and> int j < maxAttempts \<and> client j [appId] = Inl err \<and>
         fst (waitForDeploy client appId (Some maxAttempts) (Some intervalMs) []) =
           Inl (Rejected err)) \<or>
      (\<exists>j. k < j \<and> int j < maxAttempts \<and> client j [appId] = Inr None \<and>
         fst (waitForDeploy client appId (Some maxAttempts) (Some intervalMs) []) =
           Inl TypeError))"
proof (intro conjI impI)
  assume "int i < maxAttempts" and "client (queries w) [appId] = Inr (Some apps)"
    and "\<not> terminal (first_status apps)"
  then show "waitForDeploy_loop client appId maxAttempts intervalMs i w =
      waitForDeploy_loop client appId maxAttempts intervalMs (Suc i)
        (w @ [GetDeployStatus [appId], SetTimeout intervalMs])"
    using loop_continue [of i maxAttempts client w appId intervalMs]
    by (simp add: non_terminal_report_def)
next
  have "\<forall>n. classify (as_processing appId (client n [appId])) = classify (client n [appId])"
    by (simp add: classify_as_processing)
  then show "waitForDeploy (\<lambda>n batch. as_processing appId (client n batch)) appId
       (Some maxAttempts) (Some intervalMs) [] =
     waitForDeploy client appId (Some maxAttempts) (Some intervalMs) []"
    unfolding waitForDeploy_def
    using loop_cong [of "\<lambda>n batch. as_processing appId (client n batch)" appId client]
    by simp
next
  let ?run = "waitForDeploy client appId (Some maxAttempts) (Some intervalMs) []"
  assume "int k < maxAttempts" and upto: "\<forall>j\<le>k. non_terminal_report (client j [appId])"
  from waitForDeploy_run [of client appId maxAttempts intervalMs] obtain k' where
    alt: "(int k' < maxAttempts \<and> \<not> non_terminal_report (client k' [appId]) \<and>
         ?run = (verdict (client k' [appId]), polling k' appId intervalMs @ [GetDeployStatus [appId]]))
        \<or> (k' = nat maxAttempts \<and>
         ?run = (Inr \<lparr>success = False, status = js ''TIMEOUT''\<rparr>, polling k' appId intervalMs))"
    by blast
  from alt show "fst ?run = Inr \<lparr>success = False, status = js ''TIMEOUT''\<rparr> \<or>
      (\<exists>j s. k < j \<and> int j < maxAttempts \<and> reports (client j [appId]) s \<and>
         terminal (Some s) \<and> fst ?run = Inr \<lparr>success = (s = js ''SUCCESS''), status = s\<rparr>) \<or>
      (\<exists>j err. k < j \<and> int j < maxAttempts \<and> client j [appId] = Inl err \<and>
         fst ?run = Inl (Rejected err)) \<or>
      (\<exists>j. k < j \<and> int j < maxAttempts \<and> client j [appId] = Inr None \<and>
         fst ?run = Inl TypeError)"
  proof
    assume d: "int k' < maxAttempts \<and> \<not> non_terminal_report (client k' [appId]) \<and>
         ?run = (verdict (client k' [appId]), polling k' appId intervalMs @ [GetDeployStatus [appId]])"
    then have later: "k < k'" using upto by (meson not_le)
    from d have f: "fst ?run = verdict (client k' [appId])" by simp
    show ?thesis
    proof (cases "verdict (client k' [appId])")
      case (Inl x)
      show ?thesis
      proof (cases x)
        case (Rejected err)
        then have "client k' [appId] = Inl err" using Inl by (simp add: verdict_reject)
        with later d f Inl Rejected show ?thesis by auto
      next
        case TypeError
        then have "client k' [appId] = Inr None" using Inl by (simp add: verdict_no_apps)
        with later d f Inl TypeError show ?thesis by auto
      qed
    next
      case (Inr out)
      with d obtain s where "reports (client k' [appId]) s" and "terminal (Some s)"
        and "out = \<lparr>success = (s = js ''SUCCESS''), status = s\<rparr>"
        using verdict_terminal by blast
      with later d f Inr show ?thesis by auto
    qed
  next
    assume "k' = nat maxAttempts \<and>
         ?run = (Inr \<lparr>success = False, status = js ''TIMEOUT''\<rparr>, polling k' appId intervalMs)"
    then show ?thesis by simp
  qed
qed

theorem waitForDeploy_unrecognized_status_witness:
  "waitForDeploy_loop
     (script [Inr (Some []), Inr (Some [DeployEntry 7 None]), Inr (Some [DeployEntry 7 (Some (js ''UNKNOWN''))])]
        (Inr (Some [DeployEntry 7 (Some (js ''SUCCESS''))])) :: (string, nat) client)
     7 5 10 0 [] =
   waitForDeploy_loop
     (script [Inr (Some []), Inr (Some [DeployEntry 7 None]), Inr (Some [DeployEntry 7 (Some (js ''UNKNOWN''))])]
        (Inr (Some [DeployEntry 7 (Some (js ''SUCCESS''))])) :: (string, nat) client)
     7 5 10 (Suc 0) [GetDeployStatus [7], SetTimeout 10] \<and>
   waitForDeploy
     (script [Inr (Some []), Inr (Some [DeployEntry 7 None]), Inr (Some [DeployEntry 7 (Some (js ''UNKNOWN''))])]
        (Inr (Some [DeployEntry 7 (Some (js ''SUCCESS''))])) :: (string, nat) client)
     7 (Some 5) (Some 10) [] =
   (Inr \<lparr>success = True, status = js ''SUCCESS''\<rparr>,
    [GetDeployStatus [7], SetTimeout 10, GetDeployStatus [7], SetTimeout 10,
     GetDeployStatus [7], SetTimeout 10, GetDeployStatus [7]])"
proof -
  let ?c = "script [Inr (Some []), Inr (Some [DeployEntry 7 None]), Inr (Some [DeployEntry 7 (Some (js ''UNKNOWN''))])]
        (Inr (Some [DeployEntry 7 (Some (js ''SUCCESS''))])) :: (string, nat) client"
  have "int 0 < 5" and "?c (queries []) [7] = Inr (Some [])" and "\<not> terminal (first_status [])"
    by (simp_all add: script_def queries_def terminal_def)
  then have step: "waitForDeploy_loop ?c 7 5 10 0 [] =
      waitForDeploy_loop ?c 7 5 10 (Suc 0) ([] @ [GetDeployStatus [7], SetTimeout 10])"
    using waitForDeploy_unrecognized_status [of 0 5 ?c "[]" 7 "[]" 10, THEN conjunct1]
    by blast
  have "waitForDeploy ?c 7 (Some 5) (Some 10) [] =
      (Inr \<lparr>success = True, status = js ''SUCCESS''\<rparr>,
       [GetDeployStatus [7], SetTimeout 10, GetDeployStatus [7], SetTimeout 10,
        GetDeployStatus [7], SetTimeout 10, GetDeployStatus [7]])"
    by (simp add: waitForDeploy_def waitForDeploy_loop.simps getDeployStatus_def sleep_def
          queries_def script_def js_def)
  with step show ?thesis by simp
qed

text \<open>
  Against C5 as stated (such a run ends only with a later terminal status or with
  \<open>TIMEOUT\<close>): the first query reports the unrecognized status \<open>UNKNOWN\<close>, the second
  rejects, and the run ends with that error; and when the second resolves to a value
  without an \<open>apps\<close> array, the run ends with a \<open>TypeError\<close>.
\<close>

theorem waitForDeploy_unrecognized_then_error:
  "waitForDeploy
     (script [Inr (Some [DeployEntry 7 (Some (js ''UNKNOWN''))])] (Inl ''ECONNRESET'')
        :: (string, nat) client)
     7 (Some 3) (Some 10) [] =
   (Inl (Rejected ''ECONNRESET''), [GetDeployStatus [7], SetTimeout 10, GetDeployStatus [7]]) \<and>
   waitForDeploy
     (script [Inr (Some [DeployEntry 7 (Some (js ''UNKNOWN''))])] (Inr None)
        :: (string, nat) client)
     7 (Some 3) (Some 10) [] =
   (Inl TypeError, [GetDeployStatus [7], SetTimeout 10, GetDeployStatus [7]])"
  by (simp add: waitForDeploy_def waitForDeploy_loop.simps getDeployStatus_def sleep_def
        queries_def script_def js_def)

section \<open>The claim about \<open>loadEnv\<close>\<close>

lemma loadEnv_line_proto: "loadEnv_line env (js ''__proto__=a=b'') = env"
  by (simp add: loadEnv_line_def js_set_def js_def js_trim_def js_whitespace_def Let_def)

text \<open>
  C10 (lines of the \<open>.env\<close> file), as amended.  A line that, trimmed, reads
  \<open>KEY=rest\<close>, with a non-empty \<open>KEY\<close> free of \<open>=\<close> and not starting with \<open>#\<close>, sets
  the trimmed \<open>KEY\<close> to the trimmed \<open>rest\<close>: every \<open>=\<close> of \<open>rest\<close> is kept, and an empty
  \<open>rest\<close> gives the empty string.  (The name \<open>__proto__\<close> is left aside: for it the
  assignment stores nothing.)  A line that is blank, starts with \<open>#\<close> or has no
  \<open>=\<close> leaves \<open>env\<close> as it is.  \<open>loadEnv\<close> applies this to the lines of the file in
  order, starting from the empty object.
\<close>

theorem loadEnv_line_entries:
  "(js_trim line = key @ of_char CHR ''='' # rest \<longrightarrow> of_char CHR ''='' \<notin> set key \<longrightarrow>
      key \<noteq> [] \<longrightarrow> \<not> startsWith key (js ''#'') \<longrightarrow> js_trim key \<noteq> js ''__proto__'' \<longrightarrow>
      loadEnv_line env line = env(js_trim key \<mapsto> js_trim rest)) \<and>
   (js_trim line = [] \<or> startsWith (js_trim line) (js ''#'') \<or>
      of_char CHR ''='' \<notin> set (js_trim line) \<longrightarrow>
      loadEnv_line env line = env) \<and>
   (of_char CHR ''\<newline>'' \<notin> set line \<longrightarrow>
      loadEnv (Some line) = Returns (loadEnv_line Map.empty line) \<and>
      loadEnv (Some (content @ of_char CHR ''\<newline>'' # line)) =
        map_process (\<lambda>env. loadEnv_line env line) (loadEnv (Some content)))"
proof (intro conjI impI)
  assume t: "js_trim line = key @ of_char CHR ''='' # rest"
    and k: "of_char CHR ''='' \<notin> set key" "key \<noteq> []" "\<not> startsWith key (js ''#'')"
      "js_trim key \<noteq> js ''__proto__''"
  have "\<not> startsWith (js_trim line) (js ''#'')"
    using t k(2,3) startsWith_append [of key] by (simp add: js_def)
  moreover have "js_split (of_char CHR ''='') (js_trim line) =
      key # js_split (of_char CHR ''='') rest"
    using t k(1) by (simp add: js_split_key)
  ultimately show "loadEnv_line env line = env(js_trim key \<mapsto> js_trim rest)"
    using t k(2,4) by (simp add: loadEnv_line_def js_set_def Let_def)
next
  assume "js_trim line = [] \<or> startsWith (js_trim line) (js ''#'') \<or>
      of_char CHR ''='' \<notin> set (js_trim line)"
  then show "loadEnv_line env line = env"
    by (auto simp: loadEnv_line_def Let_def js_split_no_sep)
next
  assume "of_char CHR ''\<newline>'' \<notin> set line"
  then show "loadEnv (Some line) = Returns (loadEnv_line Map.empty line)"
    by (simp add: loadEnv_def js_split_no_sep)
next
  assume "of_char CHR ''\<newline>'' \<notin> set line"
  then show "loadEnv (Some (content @ of_char CHR ''\<newline>'' # line)) =
        map_process (\<lambda>env. loadEnv_line env line) (loadEnv (Some content))"
    by (simp add: loadEnv_def js_split_append js_split_no_sep)
qed

theorem loadEnv_line_entries_witness:
  "loadEnv_line Map.empty (js ''  TOKEN = a=b=c '') = [js ''TOKEN'' \<mapsto> js ''a=b=c''] \<and>
   loadEnv_line Map.empty (js ''EMPTY='') = [js ''EMPTY'' \<mapsto> []] \<and>
   loadEnv_line [js ''A'' \<mapsto> js ''1''] (js '' # note=1'') = [js ''A'' \<mapsto> js ''1''] \<and>
   loadEnv_line [js ''A'' \<mapsto> js ''1''] (js ''novalue'') = [js ''A'' \<mapsto> js ''1''] \<and>
   loadEnv (Some (js ''A=1\<newline>B=x=y'')) =
     map_process (\<lambda>env. loadEnv_line env (js ''B=x=y'')) (loadEnv (Some (js ''A=1'')))"
proof -
  have t1: "js_trim (js ''  TOKEN = a=b=c '') = js ''TOKEN '' @ of_char CHR ''='' # js '' a=b=c''"
    and k1: "of_char CHR ''='' \<notin> set (js ''TOKEN '')" "js ''TOKEN '' \<noteq> []"
      "\<not> startsWith (js ''TOKEN '') (js ''#'')"
    and v1: "js_trim (js ''TOKEN '') = js ''TOKEN''" "js_trim (js '' a=b=c'') = js ''a=b=c''"
      "js ''TOKEN'' \<noteq> js ''__proto__''"
    by (simp_all add: js_trim_def js_whitespace_def js_def)
  have e1: "loadEnv_line Map.empty (js ''  TOKEN = a=b=c '') = [js ''TOKEN'' \<mapsto> js ''a=b=c'']"
    using loadEnv_line_entries
      [of "js ''  TOKEN = a=b=c ''" "js ''TOKEN ''" "js '' a=b=c''" Map.empty, THEN conjunct1]
      t1 k1 v1
    by simp
  have t2: "js_trim (js ''EMPTY='') = js ''EMPTY'' @ of_char CHR ''='' # []"
    and k2: "of_char CHR ''='' \<notin> set (js ''EMPTY'')" "js ''EMPTY'' \<noteq> []"
      "\<not> startsWith (js ''EMPTY'') (js ''#'')"
    and v2: "js_trim (js ''EMPTY'') = js ''EMPTY''" "js_trim [] = []"
      "js ''EMPTY'' \<noteq> js ''__proto__''"
    by (simp_all add: js_trim_def js_whitespace_def js_def)
  have e2: "loadEnv_line Map.empty (js ''EMPTY='') = [js ''EMPTY'' \<mapsto> []]"
    using loadEnv_line_entries
      [of "js ''EMPTY=''" "js ''EMPTY''" "[]" Map.empty, THEN conjunct1]
      t2 k2 v2
    by simp
  have "startsWith (js_trim (js '' # note=1'')) (js ''#'')"
    by (simp add: js_trim_def js_whitespace_def js_def)
  then have e3: "loadEnv_line [js ''A'' \<mapsto> js ''1''] (js '' # note=1'') = [js ''A'' \<mapsto> js ''1'']"
    using loadEnv_line_entries
      [of "js '' # note=1''" _ _ "[js ''A'' \<mapsto> js ''1'']", THEN conjunct2, THEN conjunct1]
    by blast
  have "of_char CHR ''='' \<notin> set (js_trim (js ''novalue''))"
    by (simp add: js_trim_def js_whitespace_def js_def)
  then have e4: "loadEnv_line [js ''A'' \<mapsto> js ''1''] (js ''novalue'') = [js ''A'' \<mapsto> js ''1'']"
    using loadEnv_line_entries
      [of "js ''novalue''" _ _ "[js ''A'' \<mapsto> js ''1'']", THEN conjunct2, THEN conjunct1]
    by blast
  have "of_char CHR ''\<newline>'' \<notin> set (js ''B=x=y'')"
    by (simp add: js_def)
  then have "loadEnv (Some (js ''A=1'' @ of_char CHR ''\<newline>'' # js ''B=x=y'')) =
     map_process (\<lambda>env. loadEnv_line env (js ''B=x=y'')) (loadEnv (Some (js ''A=1'')))"
    using loadEnv_line_entries
      [of "js ''B=x=y''" _ _ _ "js ''A=1''", THEN conjunct2, THEN conjunct2]
    by blast
  moreover have "js ''A=1'' @ of_char CHR ''\<newline>'' # js ''B=x=y'' = js ''A=1\<newline>B=x=y''"
    by (simp add: js_def)
  ultimately have e5: "loadEnv (Some (js ''A=1\<newline>B=x=y'')) =
     map_process (\<lambda>env. loadEnv_line env (js ''B=x=y'')) (loadEnv (Some (js ''A=1'')))"
    by simp
  from e1 e2 e3 e4 e5 show ?thesis by blast
qed

text \<open>
  Against C10 as stated (a line with nothing after the \<open>=\<close> produces no entry): the file
  \<open>KEY=\<close> gives \<open>KEY\<close> the empty string.
\<close>

theorem loadEnv_empty_value_kept:
  "loadEnv (Some (js ''KEY='')) = Returns [js ''KEY'' \<mapsto> []] \<and>
   loadEnv (Some (js ''KEY='')) \<noteq> Returns Map.empty"
proof -
  have "loadEnv (Some (js ''KEY='')) = Returns [js ''KEY'' \<mapsto> []]"
    by (simp add: loadEnv_def loadEnv_line_def js_set_def js_def js_trim_def js_whitespace_def
          Let_def)
  moreover have "[js ''KEY'' \<mapsto> ([]::jsstring)] \<noteq> Map.empty" by simp
  ultimately show ?thesis by simp
qed

end
